theory Spec2Isabelle
  imports Complex_Main
begin

section \<open>Numbers and output\<close>

text \<open>
  The three calculators compute on C++ \<^verbatim>\<open>double\<close>. The embedding reads a
  \<^verbatim>\<open>double\<close> as a real number: \<^verbatim>\<open>std::numbers::pi\<close> is \<^term>\<open>pi\<close>,
  \<^verbatim>\<open>std::tan\<close>, \<^verbatim>\<open>std::cos\<close>, \<^verbatim>\<open>std::sin\<close> and \<^verbatim>\<open>std::atan\<close> are
  \<^term>\<open>tan\<close>, \<^term>\<open>cos\<close>, \<^term>\<open>sin\<close> and \<^term>\<open>arctan\<close>, and
  \<^verbatim>\<open>std::abs\<close> is \<^term>\<open>abs\<close>. Under this reading a number the program returns
  is the rounded value of the number the model returns for the same formula; the
  rounding itself is not modelled.

  In two places the machine differs from exact arithmetic in kind and not by a
  rounding error, and there the machine is modelled:
  \<^item> \<^verbatim>\<open>std::stod\<close> can return a value that is not a finite number (an infinity or
    NaN), and every comparison with NaN is false. \<^verbatim>\<open>main\<close> of the turn calculator
    is modelled on such values (type \<open>double\<close> below).
  \<^item> The loops of \<^verbatim>\<open>normalize_angle\<close> add or subtract 360.0 until the angle is in
    range, and a rounded sum can be the angle itself. The loops are modelled a second
    time with the rounded step (\<open>round_double\<close> below), as functions that may not return.

  Division in HOL is total (\<open>x / 0 = 0\<close>). The programs validate their arguments
  before they compute, and on validated arguments no divisor of the code is zero; the
  theorems that depend on it carry the validation as hypotheses.
\<close>

text \<open>
  \<^verbatim>\<open>print_json\<close> writes one line per field, \<^verbatim>\<open>"  \"key\": " << value\<close>, with
  numbers in fixed two-decimal format and booleans as \<^verbatim>\<open>true\<close>/\<^verbatim>\<open>false\<close>. The
  output is modelled as the ordered list of the named fields written; the rendering of
  a number as text is not modelled.
\<close>

datatype json_value = JNumber real | JBool bool

type_synonym json_object = "(string \<times> json_value) list"

text \<open>
  What one run of a program leaves behind: the value returned by \<^verbatim>\<open>main\<close>, the
  fields written to standard output and the lines written to standard error.
\<close>

record process_result =
  exit_code :: int
  stdout :: json_object
  stderr :: "string list"

text \<open>
  \<^verbatim>\<open>parse_double\<close> is \<^verbatim>\<open>std::stod(std::string(sv))\<close>, a function of the C++
  standard library: it returns the number read or throws a \<^verbatim>\<open>std::exception\<close>.
  The embedding takes it as a parameter of \<^verbatim>\<open>main\<close>, with \<open>Inl\<close> carrying
  \<^verbatim>\<open>e.what()\<close>. The type \<open>parser\<close> is \<^verbatim>\<open>std::stod\<close> on arguments that read as
  finite numbers; \<^verbatim>\<open>main\<close> of the VNAV and of the wind calculator are modelled on
  such arguments.
\<close>

type_synonym parser = "string \<Rightarrow> string + real"

text \<open>
  What \<^verbatim>\<open>std::stod\<close> can return in general: a finite number, an infinity
  (\<^verbatim>\<open>inf\<close>, \<^verbatim>\<open>-inf\<close>) or NaN (\<^verbatim>\<open>nan\<close>). None of these throws.
\<close>

datatype double = Finite real | PlusInfinity | MinusInfinity | NaN

type_synonym stod = "string \<Rightarrow> string + double"

text \<open>
  The comparisons \<^verbatim>\<open><=\<close> and \<^verbatim>\<open>>\<close> and \<^verbatim>\<open>std::abs\<close> on these values. A
  comparison with NaN on either side is false.
\<close>

fun double_le :: "double \<Rightarrow> double \<Rightarrow> bool" where
  "double_le NaN _ = False"
| "double_le _ NaN = False"
| "double_le (Finite x) (Finite y) = (x \<le> y)"
| "double_le MinusInfinity _ = True"
| "double_le _ PlusInfinity = True"
| "double_le _ _ = False"

fun double_gt :: "double \<Rightarrow> double \<Rightarrow> bool" where
  "double_gt NaN _ = False"
| "double_gt _ NaN = False"
| "double_gt (Finite x) (Finite y) = (x > y)"
| "double_gt MinusInfinity _ = False"
| "double_gt _ MinusInfinity = True"
| "double_gt PlusInfinity PlusInfinity = False"
| "double_gt PlusInfinity _ = True"
| "double_gt _ PlusInfinity = False"

fun double_abs :: "double \<Rightarrow> double" where
  "double_abs (Finite x) = Finite \<bar>x\<bar>"
| "double_abs PlusInfinity = PlusInfinity"
| "double_abs MinusInfinity = PlusInfinity"
| "double_abs NaN = NaN"

section \<open>Turn calculator (turn_calculator.cpp)\<close>

definition DEG_TO_RAD :: real where
  "DEG_TO_RAD = pi / 180.0"

definition RAD_TO_DEG :: real where
  "RAD_TO_DEG = 180.0 / pi"

definition GRAVITY :: real where
  "GRAVITY = 9.80665"

definition KTS_TO_MS :: real where
  "KTS_TO_MS = 0.514444"

definition NM_TO_FT :: real where
  "NM_TO_FT = 6076.12"

definition STANDARD_RATE :: real where
  "STANDARD_RATE = 3.0"

record TurnData =
  radius_nm :: real
  radius_ft :: real
  turn_rate_dps :: real
  lead_distance_nm :: real
  lead_distance_ft :: real
  time_to_turn_sec :: real
  load_factor :: real
  standard_rate_bank :: real

text \<open>
  \<^verbatim>\<open>calculate_turn_performance\<close> fills the fields of a local \<^verbatim>\<open>TurnData\<close> one
  by one; the model builds the record at the end from the same local values, in the
  same two branches.
\<close>

definition calculate_turn_performance :: "real \<Rightarrow> real \<Rightarrow> real \<Rightarrow> TurnData" where
  "calculate_turn_performance tas_kts bank_deg course_change_deg =
    (let v_ms = tas_kts * KTS_TO_MS;
         phi_rad = bank_deg * DEG_TO_RAD;
         delta_psi_rad = course_change_deg * DEG_TO_RAD;
         r_load_factor = 1.0 / cos phi_rad;
         tan_phi = tan phi_rad;
         omega_std_rad_s = STANDARD_RATE * DEG_TO_RAD;
         phi_std_rad = arctan ((omega_std_rad_s * v_ms) / GRAVITY);
         r_standard_rate_bank = phi_std_rad * RAD_TO_DEG
     in if \<bar>tan_phi\<bar> < 0.001 then
          \<lparr> radius_nm = 999.9,
            radius_ft = 999900.0,
            turn_rate_dps = 0.0,
            lead_distance_nm = 0.0,
            lead_distance_ft = 0.0,
            time_to_turn_sec = 999.9,
            load_factor = r_load_factor,
            standard_rate_bank = r_standard_rate_bank \<rparr>
        else
          (let radius_m = (v_ms * v_ms) / (GRAVITY * tan_phi);
               r_radius_ft = radius_m * 3.28084;
               r_radius_nm = r_radius_ft / NM_TO_FT;
               omega_rad_s = (GRAVITY * tan_phi) / v_ms;
               r_turn_rate_dps = omega_rad_s * RAD_TO_DEG;
               lead_m = radius_m * tan (delta_psi_rad / 2.0);
               r_lead_distance_ft = lead_m * 3.28084;
               r_lead_distance_nm = r_lead_distance_ft / NM_TO_FT;
               r_time_to_turn_sec =
                 (if r_turn_rate_dps > 0.01 then \<bar>course_change_deg\<bar> / r_turn_rate_dps
                  else 999.9)
           in \<lparr> radius_nm = r_radius_nm,
                radius_ft = r_radius_ft,
                turn_rate_dps = r_turn_rate_dps,
                lead_distance_nm = r_lead_distance_nm,
                lead_distance_ft = r_lead_distance_ft,
                time_to_turn_sec = r_time_to_turn_sec,
                load_factor = r_load_factor,
                standard_rate_bank = r_standard_rate_bank \<rparr>))"

text \<open>
  \<^verbatim>\<open>print_json\<close> of the turn calculator: the eight fields in the order written.
\<close>

definition turn_print_json :: "TurnData \<Rightarrow> json_object" where
  "turn_print_json turn =
    [ (''radius_nm'', JNumber (radius_nm turn)),
      (''radius_ft'', JNumber (radius_ft turn)),
      (''turn_rate_dps'', JNumber (turn_rate_dps turn)),
      (''lead_distance_nm'', JNumber (lead_distance_nm turn)),
      (''lead_distance_ft'', JNumber (lead_distance_ft turn)),
      (''time_to_turn_sec'', JNumber (time_to_turn_sec turn)),
      (''load_factor'', JNumber (load_factor turn)),
      (''standard_rate_bank'', JNumber (standard_rate_bank turn)) ]"

text \<open>
  The degree sign of the usage texts, as the two bytes of its UTF-8 encoding.
\<close>

definition degree_sign :: string where
  "degree_sign = [CHR 0xC2, CHR 0xB0]"

definition turn_print_usage :: "string \<Rightarrow> string list" where
  "turn_print_usage program_name =
    [ ''Usage: '' @ program_name @ '' <tas_kts> <bank_deg> <course_change_deg>'',
      [],
      ''Arguments:'',
      ''  tas_kts          : True airspeed (knots)'',
      ''  bank_deg         : Bank angle (degrees)'',
      ''  course_change_deg: Course change required (degrees)'',
      [],
      ''Example:'',
      ''  '' @ program_name @ '' 250 25 90'',
      ''  (250 knots TAS, 25'' @ degree_sign @ '' bank, 90'' @ degree_sign @ '' turn)'' ]"

text \<open>
  What the turn calculator writes to standard output: nothing, or the eight lines of
  \<^verbatim>\<open>print_json\<close>. When the three arguments are finite numbers the lines are the
  fields of the record computed from them. When an argument is an infinity or NaN,
  \<^verbatim>\<open>print_json\<close> still writes its eight lines; the record is then computed from a
  value that is not a number of the model, and the numbers written are not modelled.
\<close>

datatype printed = Nothing | Json json_object | JsonUnmodelled

record turn_process_result =
  turn_exit_code :: int
  turn_stdout :: printed
  turn_stderr :: "string list"

definition turn_output :: "double \<Rightarrow> double \<Rightarrow> double \<Rightarrow> printed" where
  "turn_output tas_kts bank_deg course_change_deg =
    (case (tas_kts, bank_deg, course_change_deg) of
       (Finite t, Finite b, Finite c) \<Rightarrow>
         Json (turn_print_json (calculate_turn_performance t b c))
     | _ \<Rightarrow> JsonUnmodelled)"

text \<open>
  The \<^verbatim>\<open>catch\<close> block of \<^verbatim>\<open>main\<close>: the message of the exception, the usage
  text, and exit code 1.
\<close>

definition turn_catch :: "string \<Rightarrow> string \<Rightarrow> turn_process_result" where
  "turn_catch program_name what =
    \<lparr> turn_exit_code = 1, turn_stdout = Nothing,
      turn_stderr = (''Error: '' @ what) # turn_print_usage program_name \<rparr>"

text \<open>
  \<^verbatim>\<open>main\<close> of the turn calculator. \<open>args\<close> is \<^verbatim>\<open>argv + 1 .. argv + argc\<close>
  and \<open>program_name\<close> is \<^verbatim>\<open>argv[0]\<close>. The three arguments are parsed in order,
  and the first one that throws ends the \<^verbatim>\<open>try\<close> block. The two checks are the
  comparisons of the code, \<^verbatim>\<open>tas_kts <= 0\<close> and \<^verbatim>\<open>std::abs(bank_deg) > 85\<close>, on
  whatever \<^verbatim>\<open>std::stod\<close> returned.
\<close>

definition turn_main :: "stod \<Rightarrow> string \<Rightarrow> string list \<Rightarrow> turn_process_result" where
  "turn_main parse_double program_name args =
    (if length args \<noteq> 3 then
       \<lparr> turn_exit_code = 1, turn_stdout = Nothing,
         turn_stderr = turn_print_usage program_name \<rparr>
     else
       (case parse_double (args ! 0) of
          Inl what \<Rightarrow> turn_catch program_name what
        | Inr tas_kts \<Rightarrow>
       (case parse_double (args ! 1) of
          Inl what \<Rightarrow> turn_catch program_name what
        | Inr bank_deg \<Rightarrow>
       (case parse_double (args ! 2) of
          Inl what \<Rightarrow> turn_catch program_name what
        | Inr course_change_deg \<Rightarrow>
            if double_le tas_kts (Finite 0) then
              \<lparr> turn_exit_code = 1, turn_stdout = Nothing,
                turn_stderr = [''Error: TAS must be positive''] \<rparr>
            else if double_gt (double_abs bank_deg) (Finite 85) then
              \<lparr> turn_exit_code = 1, turn_stdout = Nothing,
                turn_stderr = [''Error: Bank angle must be between -85 and 85 degrees''] \<rparr>
            else
              \<lparr> turn_exit_code = 0,
                turn_stdout = turn_output tas_kts bank_deg course_change_deg,
                turn_stderr = [] \<rparr>))))"

section \<open>VNAV calculator (vnav_calculator.cpp)\<close>

text \<open>
  The file declares \<^verbatim>\<open>DEG_TO_RAD\<close>, \<^verbatim>\<open>RAD_TO_DEG\<close> and \<^verbatim>\<open>NM_TO_FT\<close> again,
  with the values they have in the turn calculator, and two constants of its own.
\<close>

definition THREE_DEG_RAD :: real where
  "THREE_DEG_RAD = 3.0 * DEG_TO_RAD"

definition FIVE_DEG_RAD :: real where
  "FIVE_DEG_RAD = 5.0 * DEG_TO_RAD"

record VNAVData =
  altitude_to_lose_ft :: real
  flight_path_angle_deg :: real
  required_vs_fpm :: real
  tod_distance_nm :: real
  time_to_constraint_min :: real
  distance_per_1000ft :: real
  is_descent :: bool
  on_idle_path :: bool

text \<open>
  \<^verbatim>\<open>calculate_vnav\<close> overwrites its parameters \<^verbatim>\<open>distance_nm\<close> and
  \<^verbatim>\<open>groundspeed_kts\<close> when they are below the floors; \<open>distance_nm'\<close> and
  \<open>groundspeed_kts'\<close> are the parameters after those two statements.
\<close>

definition calculate_vnav :: "real \<Rightarrow> real \<Rightarrow> real \<Rightarrow> real \<Rightarrow> VNAVData" where
  "calculate_vnav current_alt_ft target_alt_ft distance_nm groundspeed_kts =
    (let altitude_change_ft = target_alt_ft - current_alt_ft;
         r_altitude_to_lose_ft = - altitude_change_ft;
         r_is_descent = (altitude_change_ft < 0);
         distance_nm' = (if distance_nm < 0.01 then 0.01 else distance_nm);
         groundspeed_kts' = (if groundspeed_kts < 1.0 then 1.0 else groundspeed_kts);
         distance_ft = distance_nm' * NM_TO_FT;
         gamma_rad = arctan (altitude_change_ft / distance_ft);
         r_flight_path_angle_deg = gamma_rad * RAD_TO_DEG;
         r_required_vs_fpm = 101.27 * groundspeed_kts' * tan gamma_rad;
         r_tod_distance_nm =
           (if r_is_descent then \<bar>altitude_change_ft\<bar> / (NM_TO_FT * tan (3.0 * DEG_TO_RAD))
            else 0.0);
         r_time_to_constraint_min = (distance_nm' / groundspeed_kts') * 60.0;
         r_distance_per_1000ft =
           (if \<bar>altitude_change_ft\<bar> > 10.0
            then (distance_nm' * 1000.0) / \<bar>altitude_change_ft\<bar>
            else 999.9);
         r_on_idle_path =
           (if r_is_descent then
              (let abs_fpa = \<bar>r_flight_path_angle_deg\<bar>
               in abs_fpa \<ge> 2.0 \<and> abs_fpa \<le> 4.0)
            else r_flight_path_angle_deg \<ge> 0.5 \<and> r_flight_path_angle_deg \<le> 15.0)
     in \<lparr> altitude_to_lose_ft = r_altitude_to_lose_ft,
          flight_path_angle_deg = r_flight_path_angle_deg,
          required_vs_fpm = r_required_vs_fpm,
          tod_distance_nm = r_tod_distance_nm,
          time_to_constraint_min = r_time_to_constraint_min,
          distance_per_1000ft = r_distance_per_1000ft,
          is_descent = r_is_descent,
          on_idle_path = r_on_idle_path \<rparr>)"

record VNAVHelpers =
  vs_for_3deg :: real
  vs_for_5deg :: real
  distance_remaining_at_current_vs :: real

definition calculate_vnav_helpers :: "real \<Rightarrow> real \<Rightarrow> real \<Rightarrow> VNAVHelpers" where
  "calculate_vnav_helpers groundspeed_kts current_vs_fpm altitude_change_ft =
    (let r_vs_for_3deg = - 101.27 * groundspeed_kts * tan THREE_DEG_RAD;
         r_vs_for_5deg = - 101.27 * groundspeed_kts * tan FIVE_DEG_RAD;
         r_distance_remaining =
           (if \<bar>current_vs_fpm\<bar> > 10.0 \<and> groundspeed_kts > 1.0 then
              (let time_min = altitude_change_ft / current_vs_fpm;
                   d = (time_min * groundspeed_kts) / 60.0
               in if d < 0 then 999.9 else d)
            else 999.9)
     in \<lparr> vs_for_3deg = r_vs_for_3deg,
          vs_for_5deg = r_vs_for_5deg,
          distance_remaining_at_current_vs = r_distance_remaining \<rparr>)"

text \<open>
  \<^verbatim>\<open>print_json\<close> of the VNAV calculator: eight fields of \<^verbatim>\<open>VNAVData\<close>, then
  three of \<^verbatim>\<open>VNAVHelpers\<close>, in the order written.
\<close>

definition vnav_print_json :: "VNAVData \<Rightarrow> VNAVHelpers \<Rightarrow> json_object" where
  "vnav_print_json vnav helpers =
    [ (''altitude_to_lose_ft'', JNumber (altitude_to_lose_ft vnav)),
      (''flight_path_angle_deg'', JNumber (flight_path_angle_deg vnav)),
      (''required_vs_fpm'', JNumber (required_vs_fpm vnav)),
      (''tod_distance_nm'', JNumber (tod_distance_nm vnav)),
      (''time_to_constraint_min'', JNumber (time_to_constraint_min vnav)),
      (''distance_per_1000ft'', JNumber (distance_per_1000ft vnav)),
      (''is_descent'', JBool (is_descent vnav)),
      (''on_idle_path'', JBool (on_idle_path vnav)),
      (''vs_for_3deg'', JNumber (vs_for_3deg helpers)),
      (''vs_for_5deg'', JNumber (vs_for_5deg helpers)),
      (''distance_at_current_vs_nm'', JNumber (distance_remaining_at_current_vs helpers)) ]"

definition vnav_print_usage :: "string \<Rightarrow> string list" where
  "vnav_print_usage program_name =
    [ ''Usage: '' @ program_name @
        '' <current_alt_ft> <target_alt_ft> <distance_nm> <groundspeed_kts> [current_vs_fpm]'',
      [],
      ''Arguments:'',
      ''  current_alt_ft  : Current altitude (feet)'',
      ''  target_alt_ft   : Target altitude at constraint (feet)'',
      ''  distance_nm     : Distance to constraint (nautical miles)'',
      ''  groundspeed_kts : Current groundspeed (knots)'',
      ''  current_vs_fpm  : Current vertical speed (optional, ft/min)'',
      [],
      ''Example:'',
      ''  '' @ program_name @ '' 35000 10000 100 450 -1500'',
      ''  (Descend from FL350 to 10000 ft, 100 nm away, GS 450 kts, VS -1500 fpm)'' ]"

definition vnav_catch :: "string \<Rightarrow> string \<Rightarrow> process_result" where
  "vnav_catch program_name what =
    \<lparr> exit_code = 1, stdout = [],
      stderr = (''Error: '' @ what) # vnav_print_usage program_name \<rparr>"

text \<open>
  \<^verbatim>\<open>main\<close> of the VNAV calculator. The fifth argument is optional; without it
  \<^verbatim>\<open>current_vs_fpm\<close> is 0.0. The helpers receive the groundspeed as parsed, not the
  one floored inside \<^verbatim>\<open>calculate_vnav\<close>.
\<close>

definition vnav_main :: "parser \<Rightarrow> string \<Rightarrow> string list \<Rightarrow> process_result" where
  "vnav_main parse_double program_name args =
    (if length args < 4 \<or> length args > 5 then
       \<lparr> exit_code = 1, stdout = [], stderr = vnav_print_usage program_name \<rparr>
     else
       (case parse_double (args ! 0) of
          Inl what \<Rightarrow> vnav_catch program_name what
        | Inr current_alt_ft \<Rightarrow>
       (case parse_double (args ! 1) of
          Inl what \<Rightarrow> vnav_catch program_name what
        | Inr target_alt_ft \<Rightarrow>
       (case parse_double (args ! 2) of
          Inl what \<Rightarrow> vnav_catch program_name what
        | Inr distance_nm \<Rightarrow>
       (case parse_double (args ! 3) of
          Inl what \<Rightarrow> vnav_catch program_name what
        | Inr groundspeed_kts \<Rightarrow>
       (case (if length args = 5 then parse_double (args ! 4) else Inr 0.0) of
          Inl what \<Rightarrow> vnav_catch program_name what
        | Inr current_vs_fpm \<Rightarrow>
            if distance_nm < 0 then
              \<lparr> exit_code = 1, stdout = [],
                stderr = [''Error: Distance cannot be negative''] \<rparr>
            else if groundspeed_kts \<le> 0 then
              \<lparr> exit_code = 1, stdout = [],
                stderr = [''Error: Groundspeed must be positive''] \<rparr>
            else
              (let vnav = calculate_vnav current_alt_ft target_alt_ft distance_nm
                            groundspeed_kts;
                   altitude_change_ft = target_alt_ft - current_alt_ft;
                   helpers = calculate_vnav_helpers groundspeed_kts current_vs_fpm
                               altitude_change_ft
               in \<lparr> exit_code = 0, stdout = vnav_print_json vnav helpers,
                    stderr = [] \<rparr>)))))))"

section \<open>Wind calculator (wind_calculator.cpp)\<close>

record WindComponents =
  headwind :: real
  crosswind :: real
  total_wind :: real
  wca :: real
  drift :: real

text \<open>
  \<^verbatim>\<open>normalize_angle\<close> is two loops, one after the other:
  \<^verbatim>\<open>while (angle < 0) angle += 360.0;\<close> and
  \<^verbatim>\<open>while (angle >= 360.0) angle -= 360.0;\<close>. Each loop is a recursive function
  of the value of \<^verbatim>\<open>angle\<close>.

  The first model of the loops is in exact arithmetic. There both loops end for every
  argument: each round moves the number of whole turns \<open>\<lfloor>angle / 360\<rfloor>\<close> one step
  towards 0. It gives the value that \<^verbatim>\<open>normalize_angle\<close> returns, up to rounding,
  when it returns. It does not say that the program returns: on \<^verbatim>\<open>double\<close> a
  round of the loop changes nothing once \<open>\<bar>angle\<bar>\<close> is 2^62 or more, because
  \<^verbatim>\<open>angle - 360.0\<close> then rounds to \<^verbatim>\<open>angle\<close>. The second model, further below,
  has the rounded step and is the one to ask whether the program returns.
\<close>

function normalize_up :: "real \<Rightarrow> real" where
  "normalize_up angle = (if angle < 0 then normalize_up (angle + 360.0) else angle)"
  by pat_completeness auto
termination
proof (relation "measure (\<lambda>angle. nat (- \<lfloor>angle / 360\<rfloor>))")
  show "wf (measure (\<lambda>angle::real. nat (- \<lfloor>angle / 360\<rfloor>)))" by simp
next
  fix angle :: real
  assume neg: "angle < 0"
  then have "angle / 360 < 0" by simp
  then have below: "\<lfloor>angle / 360\<rfloor> < 0" by (simp add: floor_less_iff)
  have eq: "(angle + 360.0) / 360 = angle / 360 + of_int 1" by (simp add: field_simps)
  have "\<lfloor>(angle + 360.0) / 360\<rfloor> = \<lfloor>angle / 360\<rfloor> + 1"
    unfolding eq by (rule floor_add_int [symmetric])
  then show "(angle + 360.0, angle) \<in> measure (\<lambda>angle. nat (- \<lfloor>angle / 360\<rfloor>))"
    using below by simp
qed

function normalize_down :: "real \<Rightarrow> real" where
  "normalize_down angle = (if angle \<ge> 360.0 then normalize_down (angle - 360.0) else angle)"
  by pat_completeness auto
termination
proof (relation "measure (\<lambda>angle. nat \<lfloor>angle / 360\<rfloor>)")
  show "wf (measure (\<lambda>angle::real. nat \<lfloor>angle / 360\<rfloor>))" by simp
next
  fix angle :: real
  assume big: "angle \<ge> 360.0"
  have "1 \<le> angle / 360" using big by simp
  then have pos: "1 \<le> \<lfloor>angle / 360\<rfloor>" by (simp add: le_floor_iff)
  have eq: "(angle - 360.0) / 360 = angle / 360 + of_int (- 1)" by (simp add: field_simps)
  have "\<lfloor>(angle - 360.0) / 360\<rfloor> = \<lfloor>angle / 360\<rfloor> + (- 1)"
    unfolding eq by (rule floor_add_int [symmetric])
  then show "(angle - 360.0, angle) \<in> measure (\<lambda>angle. nat \<lfloor>angle / 360\<rfloor>)"
    using pos by simp
qed

declare normalize_up.simps [simp del] normalize_down.simps [simp del]

definition normalize_angle :: "real \<Rightarrow> real" where
  "normalize_angle angle = normalize_down (normalize_up angle)"

text \<open>
  \<^verbatim>\<open>calculate_wind\<close> first overwrites its three angle parameters with their
  normalised values (\<open>track'\<close>, \<open>heading'\<close>, \<open>wind_dir'\<close>), then works on those.
\<close>

definition calculate_wind :: "real \<Rightarrow> real \<Rightarrow> real \<Rightarrow> real \<Rightarrow> WindComponents" where
  "calculate_wind track heading wind_dir wind_speed =
    (let track' = normalize_angle track;
         heading' = normalize_angle heading;
         wind_dir' = normalize_angle wind_dir;
         drift0 = normalize_angle (track' - heading');
         r_drift = (if drift0 > 180.0 then drift0 - 360.0 else drift0);
         wind_from_relative0 = normalize_angle (wind_dir' - track');
         wind_from_relative =
           (if wind_from_relative0 > 180.0 then wind_from_relative0 - 360.0
            else wind_from_relative0);
         wind_from_rad = wind_from_relative * DEG_TO_RAD;
         r_headwind = - wind_speed * cos wind_from_rad;
         r_crosswind = wind_speed * sin wind_from_rad
     in \<lparr> headwind = r_headwind,
          crosswind = r_crosswind,
          total_wind = wind_speed,
          wca = 0.0,
          drift = r_drift \<rparr>)"

definition wind_print_json :: "WindComponents \<Rightarrow> json_object" where
  "wind_print_json wind =
    [ (''headwind'', JNumber (headwind wind)),
      (''crosswind'', JNumber (crosswind wind)),
      (''total_wind'', JNumber (total_wind wind)),
      (''wca'', JNumber (wca wind)),
      (''drift'', JNumber (drift wind)) ]"

definition wind_print_usage :: "string \<Rightarrow> string list" where
  "wind_print_usage program_name =
    [ ''Usage: '' @ program_name @ '' <track> <heading> <wind_dir> <wind_speed>'',
      [],
      ''Arguments:'',
      ''  track      : Ground track (degrees true)'',
      ''  heading    : Aircraft heading (degrees)'',
      ''  wind_dir   : Wind direction FROM (degrees)'',
      ''  wind_speed : Wind speed (knots)'',
      [],
      ''Example:'',
      ''  '' @ program_name @ '' 90 85 270 15'',
      ''  (Track 90'' @ degree_sign @ '', Heading 85'' @ degree_sign @ '', Wind from 270''
        @ degree_sign @ '' at 15 knots)'' ]"

definition wind_catch :: "string \<Rightarrow> string \<Rightarrow> process_result" where
  "wind_catch program_name what =
    \<lparr> exit_code = 1, stdout = [],
      stderr = (''Error parsing arguments: '' @ what) # wind_print_usage program_name \<rparr>"

text \<open>
  \<^verbatim>\<open>main\<close> of the wind calculator, on arguments that parse to finite numbers
  and on which \<^verbatim>\<open>normalize_angle\<close> returns. No theorem below is about it.
\<close>

definition wind_main :: "parser \<Rightarrow> string \<Rightarrow> string list \<Rightarrow> process_result" where
  "wind_main parse_double program_name args =
    (if length args \<noteq> 4 then
       \<lparr> exit_code = 1, stdout = [], stderr = wind_print_usage program_name \<rparr>
     else
       (case parse_double (args ! 0) of
          Inl what \<Rightarrow> wind_catch program_name what
        | Inr track \<Rightarrow>
       (case parse_double (args ! 1) of
          Inl what \<Rightarrow> wind_catch program_name what
        | Inr heading \<Rightarrow>
       (case parse_double (args ! 2) of
          Inl what \<Rightarrow> wind_catch program_name what
        | Inr wind_dir \<Rightarrow>
       (case parse_double (args ! 3) of
          Inl what \<Rightarrow> wind_catch program_name what
        | Inr wind_speed \<Rightarrow>
            if wind_speed < 0 then
              \<lparr> exit_code = 1, stdout = [],
                stderr = [''Error: Wind speed cannot be negative''] \<rparr>
            else
              \<lparr> exit_code = 0,
                stdout = wind_print_json (calculate_wind track heading wind_dir wind_speed),
                stderr = [] \<rparr>)))))"

subsection \<open>The loops of \<^verbatim>\<open>normalize_angle\<close> with the rounded step\<close>

text \<open>
  Rounding of a real number to \<^verbatim>\<open>double\<close> (IEEE 754 binary64, round to nearest,
  ties to even): a number of magnitude in \<open>[2^e, 2^(e+1))\<close> is rounded to a multiple of
  \<open>2^(e-52)\<close>; below \<open>2^(-1022)\<close> the multiples are those of \<open>2^(-1074)\<close>. Overflow to
  infinity, at magnitudes of 2^1024, is not modelled.
\<close>

definition round_even :: "real \<Rightarrow> int" where
  "round_even r =
    (let f = \<lfloor>r\<rfloor>; d = r - of_int f
     in if d < 1 / 2 then f
        else if d > 1 / 2 then f + 1
        else if even f then f else f + 1)"

definition double_ulp :: "real \<Rightarrow> real" where
  "double_ulp x = 2 powr of_int (max \<lfloor>log 2 \<bar>x\<bar>\<rfloor> (- 1022) - 52)"

definition round_double :: "real \<Rightarrow> real" where
  "round_double x =
    (if x = 0 then 0 else double_ulp x * of_int (round_even (x / double_ulp x)))"

text \<open>
  The two loops on \<^verbatim>\<open>double\<close>: \<^verbatim>\<open>angle += 360.0\<close> stores the rounded sum and
  \<^verbatim>\<open>angle -= 360.0\<close> the rounded difference. A loop that runs forever is the value
  \<open>None\<close>.
\<close>

partial_function (option) normalize_up_double :: "real \<Rightarrow> real option" where
  "normalize_up_double angle =
    (if angle < 0 then normalize_up_double (round_double (angle + 360.0)) else Some angle)"

partial_function (option) normalize_down_double :: "real \<Rightarrow> real option" where
  "normalize_down_double angle =
    (if angle \<ge> 360.0 then normalize_down_double (round_double (angle - 360.0))
     else Some angle)"

definition normalize_angle_double :: "real \<Rightarrow> real option" where
  "normalize_angle_double angle =
    (case normalize_up_double angle of
       None \<Rightarrow> None
     | Some angle' \<Rightarrow> normalize_down_double angle')"

text \<open>
  \<^verbatim>\<open>calculate_wind\<close> with these loops. It returns when all five calls of
  \<^verbatim>\<open>normalize_angle\<close> return, in the order of the code. The two differences handed
  to \<^verbatim>\<open>normalize_angle\<close> are rounded, since the loops depend on them; the fields of
  the record returned are the formulas of \<open>calculate_wind\<close>, in exact arithmetic.
\<close>

definition calculate_wind_double ::
  "real \<Rightarrow> real \<Rightarrow> real \<Rightarrow> real \<Rightarrow> WindComponents option" where
  "calculate_wind_double track heading wind_dir wind_speed =
    (case normalize_angle_double track of None \<Rightarrow> None | Some track' \<Rightarrow>
     case normalize_angle_double heading of None \<Rightarrow> None | Some heading' \<Rightarrow>
     case normalize_angle_double wind_dir of None \<Rightarrow> None | Some wind_dir' \<Rightarrow>
     case normalize_angle_double (round_double (track' - heading')) of None \<Rightarrow> None
     | Some drift0 \<Rightarrow>
     case normalize_angle_double (round_double (wind_dir' - track')) of None \<Rightarrow> None
     | Some wind_from_relative0 \<Rightarrow>
       Some (let r_drift = (if drift0 > 180.0 then drift0 - 360.0 else drift0);
                 wind_from_relative =
                   (if wind_from_relative0 > 180.0 then wind_from_relative0 - 360.0
                    else wind_from_relative0);
                 wind_from_rad = wind_from_relative * DEG_TO_RAD;
                 r_headwind = - wind_speed * cos wind_from_rad;
                 r_crosswind = wind_speed * sin wind_from_rad
             in \<lparr> headwind = r_headwind,
                  crosswind = r_crosswind,
                  total_wind = wind_speed,
                  wca = 0.0,
                  drift = r_drift \<rparr>))"

section \<open>The field names of the result records\<close>

text \<open>
  The member names of the four result structs, in the order of their declarations.
  HOL has no reflection on record fields, so the names are written out from the struct
  declarations of the three files.
\<close>

definition TurnData_fields :: "string list" where
  "TurnData_fields =
    [ ''radius_nm'', ''radius_ft'', ''turn_rate_dps'', ''lead_distance_nm'',
      ''lead_distance_ft'', ''time_to_turn_sec'', ''load_factor'', ''standard_rate_bank'' ]"

definition VNAVData_fields :: "string list" where
  "VNAVData_fields =
    [ ''altitude_to_lose_ft'', ''flight_path_angle_deg'', ''required_vs_fpm'',
      ''tod_distance_nm'', ''time_to_constraint_min'', ''distance_per_1000ft'',
      ''is_descent'', ''on_idle_path'' ]"

definition VNAVHelpers_fields :: "string list" where
  "VNAVHelpers_fields =
    [ ''vs_for_3deg'', ''vs_for_5deg'', ''distance_remaining_at_current_vs'' ]"

definition WindComponents_fields :: "string list" where
  "WindComponents_fields = [ ''headwind'', ''crosswind'', ''total_wind'', ''wca'', ''drift'' ]"

text \<open>
  A lowercase snake-case name: not empty, and made of lowercase letters, digits and
  underscores only.
\<close>

definition snake_char :: "char \<Rightarrow> bool" where
  "snake_char c =
    ((of_char c :: nat) = 95
     \<or> (97 \<le> (of_char c :: nat) \<and> (of_char c :: nat) \<le> 122)
     \<or> (48 \<le> (of_char c :: nat) \<and> (of_char c :: nat) \<le> 57))"

definition snake_case :: "string \<Rightarrow> bool" where
  "snake_case s = (s \<noteq> [] \<and> list_all snake_char s)"

definition keys :: "json_object \<Rightarrow> string list" where
  "keys obj = map fst obj"

section \<open>The acceptance condition of the turn calculator, as the specification words it\<close>

text \<open>
  This predicate is not taken from the code. It follows the wording of the interface
  table of the specification, to be compared with \<open>turn_main\<close>: the turn calculator
  accepts exactly three arguments, each of them parsable as a number, with a true
  airspeed above 0 and a bank angle of magnitude at most 85. NaN is neither above 0 nor
  of magnitude at most 85.
\<close>

definition turn_input_ok :: "stod \<Rightarrow> string list \<Rightarrow> bool" where
  "turn_input_ok parse_double args =
    (case args of
       [arg_tas, arg_bank, arg_course] \<Rightarrow>
         (case (parse_double arg_tas, parse_double arg_bank, parse_double arg_course) of
            (Inr tas_kts, Inr bank_deg, Inr course_change_deg) \<Rightarrow>
              double_gt tas_kts (Finite 0) \<and> double_le (double_abs bank_deg) (Finite 85)
          | _ \<Rightarrow> False)
     | _ \<Rightarrow> False)"

section \<open>Parsers for the examples\<close>

text \<open>
  The examples below run the \<^verbatim>\<open>main\<close> functions on a few argument strings. On
  these strings the two parsers return what \<^verbatim>\<open>std::stod\<close> returns; on every other
  string, among them \<^verbatim>\<open>abc\<close>, they fail with the message \<^verbatim>\<open>stod\<close>. They stand
  for \<^verbatim>\<open>std::stod\<close> on the listed strings and on \<^verbatim>\<open>abc\<close> only.
\<close>

definition example_parser :: parser where
  "example_parser s =
    (if s = ''35000'' then Inr 35000
     else if s = ''10000'' then Inr 10000
     else if s = ''250'' then Inr 250
     else if s = ''90'' then Inr 90
     else if s = ''85'' then Inr 85
     else if s = ''-85'' then Inr (- 85)
     else if s = ''85.0001'' then Inr 85.0001
     else if s = ''-86'' then Inr (- 86)
     else if s = ''0'' then Inr 0
     else if s = ''0.5'' then Inr 0.5
     else Inl ''stod'')"

definition example_stod :: stod where
  "example_stod s =
    (if s = ''nan'' then Inr NaN
     else if s = ''250'' then Inr (Finite 250)
     else if s = ''25'' then Inr (Finite 25)
     else if s = ''90'' then Inr (Finite 90)
     else if s = ''85'' then Inr (Finite 85)
     else if s = ''-85'' then Inr (Finite (- 85))
     else if s = ''85.0001'' then Inr (Finite 85.0001)
     else if s = ''-86'' then Inr (Finite (- 86))
     else if s = ''0'' then Inr (Finite 0)
     else Inl ''stod'')"

section \<open>Properties of the turn calculator\<close>

text \<open>
  Claim C2. For every valid turn input (true airspeed above 0, bank angle of magnitude
  at most 85 degrees), the standard-rate bank angle of the result is
  \<open>arctan ((3 * pi / 180) * tas_kts * 0.514444 / 9.80665) * 180 / pi\<close>, whatever the bank
  angle and the course change are and whichever branch is taken; and when
  \<open>\<bar>tan (bank_deg * pi / 180)\<bar> < 0.001\<close> the result has radius 999.9 nm and 999900.0 ft,
  turn rate 0, lead distance 0 nm and 0 ft, and time to turn 999.9.
\<close>

theorem C2_turn_sentinels_standard_rate:
  assumes "0 < tas_kts" and "\<bar>bank_deg\<bar> \<le> 85"
  shows "standard_rate_bank (calculate_turn_performance tas_kts bank_deg course_change_deg) =
           arctan ((3 * pi / 180) * tas_kts * 0.514444 / 9.80665) * 180 / pi
       \<and> (\<bar>tan (bank_deg * pi / 180)\<bar> < 0.001 \<longrightarrow>
            radius_nm (calculate_turn_performance tas_kts bank_deg course_change_deg) = 999.9
          \<and> radius_ft (calculate_turn_performance tas_kts bank_deg course_change_deg) = 999900.0
          \<and> turn_rate_dps (calculate_turn_performance tas_kts bank_deg course_change_deg) = 0.0
          \<and> lead_distance_nm (calculate_turn_performance tas_kts bank_deg course_change_deg) = 0.0
          \<and> lead_distance_ft (calculate_turn_performance tas_kts bank_deg course_change_deg) = 0.0
          \<and> time_to_turn_sec (calculate_turn_performance tas_kts bank_deg course_change_deg) = 999.9)"
  by (simp add: calculate_turn_performance_def Let_def DEG_TO_RAD_def RAD_TO_DEG_def
      STANDARD_RATE_def KTS_TO_MS_def GRAVITY_def)

text \<open>The sentinel branch at wings level: 250 kt, bank 0, course change 90.\<close>

theorem C2_witness:
  "standard_rate_bank (calculate_turn_performance 250 0 90) =
           arctan ((3 * pi / 180) * 250 * 0.514444 / 9.80665) * 180 / pi
          \<and> radius_nm (calculate_turn_performance 250 0 90) = 999.9
          \<and> radius_ft (calculate_turn_performance 250 0 90) = 999900.0
          \<and> turn_rate_dps (calculate_turn_performance 250 0 90) = 0.0
          \<and> lead_distance_nm (calculate_turn_performance 250 0 90) = 0.0
          \<and> lead_distance_ft (calculate_turn_performance 250 0 90) = 0.0
          \<and> time_to_turn_sec (calculate_turn_performance 250 0 90) = 999.9"
  using C2_turn_sentinels_standard_rate [of 250 0 90] by simp

lemma negative_below_threshold: "(x::real) < 0 \<Longrightarrow> \<not> x > 0.01"
  by simp

text \<open>
  Claim C9. For a valid turn input with a non-degenerate left bank (true airspeed above
  0, bank angle at least -85 degrees, \<open>tan (bank_deg * pi / 180) \<le> - 0.001\<close>), the radius in
  nm, the radius in ft and the turn rate of the result are strictly negative, and the
  time to turn is the sentinel 999.9 for every course change: the quotient
  \<open>\<bar>course_change_deg\<bar> / turn_rate_dps\<close> is taken only when the turn rate exceeds 0.01.
\<close>

theorem C9_left_bank:
  assumes "0 < tas_kts" and "- 85 \<le> bank_deg" and "tan (bank_deg * pi / 180) \<le> - 0.001"
  shows "radius_nm (calculate_turn_performance tas_kts bank_deg course_change_deg) < 0
       \<and> radius_ft (calculate_turn_performance tas_kts bank_deg course_change_deg) < 0
       \<and> turn_rate_dps (calculate_turn_performance tas_kts bank_deg course_change_deg) < 0
       \<and> time_to_turn_sec (calculate_turn_performance tas_kts bank_deg course_change_deg) = 999.9"
proof -
  let ?t = "tan (bank_deg * DEG_TO_RAD)"
  have neg: "?t < 0" and notflat: "\<not> \<bar>?t\<bar> < 0.001"
    using assms(3) by (simp_all add: DEG_TO_RAD_def)
  have v: "0 < tas_kts * KTS_TO_MS" using assms(1) by (simp add: KTS_TO_MS_def)
  have g: "GRAVITY * ?t < 0" using neg by (simp add: GRAVITY_def mult_pos_neg)
  have rm: "(tas_kts * KTS_TO_MS) * (tas_kts * KTS_TO_MS) / (GRAVITY * ?t) < 0"
    using v g by (simp add: divide_pos_neg)
  have om: "GRAVITY * ?t / (tas_kts * KTS_TO_MS) * RAD_TO_DEG < 0"
    using v g by (simp add: RAD_TO_DEG_def divide_neg_pos mult_neg_pos)
  have r_ft: "radius_ft (calculate_turn_performance tas_kts bank_deg course_change_deg) =
      (tas_kts * KTS_TO_MS) * (tas_kts * KTS_TO_MS) / (GRAVITY * ?t) * 3.28084"
    using notflat by (simp add: calculate_turn_performance_def Let_def)
  have r_nm: "radius_nm (calculate_turn_performance tas_kts bank_deg course_change_deg) =
      (tas_kts * KTS_TO_MS) * (tas_kts * KTS_TO_MS) / (GRAVITY * ?t) * 3.28084 / NM_TO_FT"
    using notflat by (simp add: calculate_turn_performance_def Let_def)
  have rate: "turn_rate_dps (calculate_turn_performance tas_kts bank_deg course_change_deg) =
      GRAVITY * ?t / (tas_kts * KTS_TO_MS) * RAD_TO_DEG"
    using notflat by (simp add: calculate_turn_performance_def Let_def)
  have time: "time_to_turn_sec (calculate_turn_performance tas_kts bank_deg course_change_deg) =
      (if GRAVITY * ?t / (tas_kts * KTS_TO_MS) * RAD_TO_DEG > 0.01
       then \<bar>course_change_deg\<bar> / (GRAVITY * ?t / (tas_kts * KTS_TO_MS) * RAD_TO_DEG)
       else 999.9)"
    using notflat by (simp add: calculate_turn_performance_def Let_def)
  have ft: "(tas_kts * KTS_TO_MS) * (tas_kts * KTS_TO_MS) / (GRAVITY * ?t) * 3.28084 < 0"
    by (rule mult_neg_pos [OF rm]) simp
  have nm: "(tas_kts * KTS_TO_MS) * (tas_kts * KTS_TO_MS) / (GRAVITY * ?t) * 3.28084 / NM_TO_FT < 0"
    by (rule divide_neg_pos [OF ft]) (simp add: NM_TO_FT_def)
  have "radius_ft (calculate_turn_performance tas_kts bank_deg course_change_deg) < 0"
    unfolding r_ft using ft .
  moreover have "radius_nm (calculate_turn_performance tas_kts bank_deg course_change_deg) < 0"
    unfolding r_nm using nm .
  moreover have "turn_rate_dps (calculate_turn_performance tas_kts bank_deg course_change_deg) < 0"
    unfolding rate using om .
  moreover have "time_to_turn_sec (calculate_turn_performance tas_kts bank_deg course_change_deg) = 999.9"
  proof -
    have "\<not> GRAVITY * ?t / (tas_kts * KTS_TO_MS) * RAD_TO_DEG > 0.01"
      by (rule negative_below_threshold [OF om])
    then show ?thesis unfolding time by (simp only: if_False)
  qed
  ultimately show ?thesis by simp
qed

text \<open>A left bank of 45 degrees at 250 kt, where the tangent is -1.\<close>

theorem C9_witness:
  "radius_nm (calculate_turn_performance 250 (- 45) 90) < 0
       \<and> radius_ft (calculate_turn_performance 250 (- 45) 90) < 0
       \<and> turn_rate_dps (calculate_turn_performance 250 (- 45) 90) < 0
       \<and> time_to_turn_sec (calculate_turn_performance 250 (- 45) 90) = 999.9"
proof -
  have "tan (- 45 * pi / 180) = - 1" by (simp add: tan_45)
  then have "tan (- 45 * pi / 180) \<le> - 0.001" by simp
  then show ?thesis using C9_left_bank [of 250 "- 45" 90] by simp
qed

text \<open>
  Claim C1, as stated: for every valid turn input, \<open>radius_ft = radius_nm * 6076.12\<close> in
  the wings-level sentinel branch as well as in the computed branch. At 250 kt, bank 0,
  course change 90 the sentinel branch returns 999.9 nm and 999900.0 ft, and
  \<open>999.9 * 6076.12\<close> is not 999900.
\<close>

theorem C1_counterexample:
  "radius_ft (calculate_turn_performance 250 0 90) \<noteq>
     radius_nm (calculate_turn_performance 250 0 90) * 6076.12"
  by (simp add: calculate_turn_performance_def Let_def)

text \<open>
  Claim C1, amended. For every valid turn input the lead distance in ft is the lead
  distance in nm times 6076.12, in both branches. The radius in ft is the radius in nm
  times 6076.12 in the computed branch, where \<open>\<bar>tan (bank_deg * pi / 180)\<bar> < 0.001\<close> does
  not hold; in the sentinel branch the two radius fields are the constants 999.9 and
  999900.0.
\<close>

theorem C1_radius_conversion_computed_branch:
  assumes "0 < tas_kts" and "\<bar>bank_deg\<bar> \<le> 85"
  shows "lead_distance_ft (calculate_turn_performance tas_kts bank_deg course_change_deg) =
           lead_distance_nm (calculate_turn_performance tas_kts bank_deg course_change_deg) * 6076.12
       \<and> (if \<bar>tan (bank_deg * pi / 180)\<bar> < 0.001
          then radius_nm (calculate_turn_performance tas_kts bank_deg course_change_deg) = 999.9
             \<and> radius_ft (calculate_turn_performance tas_kts bank_deg course_change_deg) = 999900.0
          else radius_ft (calculate_turn_performance tas_kts bank_deg course_change_deg) =
                 radius_nm (calculate_turn_performance tas_kts bank_deg course_change_deg) * 6076.12)"
proof -
  have nm_ft: "x / NM_TO_FT * 6076.12 = x" for x
    by (simp add: NM_TO_FT_def)
  have rad: "bank_deg * DEG_TO_RAD = bank_deg * pi / 180"
    by (simp add: DEG_TO_RAD_def)
  show ?thesis
  proof (cases "\<bar>tan (bank_deg * pi / 180)\<bar> < 0.001")
    case True
    then show ?thesis
      by (simp add: calculate_turn_performance_def Let_def rad)
  next
    case False
    then show ?thesis
      by (simp only: calculate_turn_performance_def Let_def rad if_False
          TurnData.simps nm_ft simp_thms)
  qed
qed

text \<open>A bank of 45 degrees for the computed branch, a bank of 0 for the sentinel branch.\<close>

theorem C1_witness:
  "lead_distance_ft (calculate_turn_performance 250 45 90) =
           lead_distance_nm (calculate_turn_performance 250 45 90) * 6076.12
   \<and> radius_ft (calculate_turn_performance 250 45 90) =
                 radius_nm (calculate_turn_performance 250 45 90) * 6076.12
   \<and> radius_nm (calculate_turn_performance 250 0 90) = 999.9
   \<and> radius_ft (calculate_turn_performance 250 0 90) = 999900.0"
proof -
  have "tan (45 * pi / 180) = 1" by (simp add: tan_45)
  then have a: "\<not> \<bar>tan (45 * pi / 180)\<bar> < 0.001" by simp
  have b: "\<bar>tan (0 * pi / 180)\<bar> < 0.001" by simp
  show ?thesis
    using C1_radius_conversion_computed_branch [of 250 45 90]
      C1_radius_conversion_computed_branch [of 250 0 90] a b
    by (simp only: if_True if_False simp_thms)
qed

text \<open>
  Three arguments are a list of three elements; another number of arguments is never
  accepted by \<open>turn_input_ok\<close>.
\<close>

lemma three_args: "length args = 3 \<Longrightarrow> \<exists>x y z. args = [x, y, z]"
  by (auto simp: length_Suc_conv numeral_3_eq_3)

lemma not_three_args: "length args \<noteq> 3 \<Longrightarrow> \<not> turn_input_ok parse_double args"
  by (auto simp: turn_input_ok_def split: list.splits)

text \<open>
  On a value that is not NaN the two checks of \<^verbatim>\<open>main\<close> are the negations of the
  two conditions of the specification.
\<close>

lemma tas_check_without_nan:
  "d \<noteq> NaN \<Longrightarrow> double_le d (Finite 0) \<longleftrightarrow> \<not> double_gt d (Finite 0)"
  by (cases d) auto

lemma bank_check_without_nan:
  "d \<noteq> NaN \<Longrightarrow>
     double_gt (double_abs d) (Finite 85) \<longleftrightarrow> \<not> double_le (double_abs d) (Finite 85)"
  by (cases d) auto

text \<open>
  When neither the true airspeed nor the bank angle parses to NaN, the turn calculator
  returns exit code 0 exactly when \<open>turn_input_ok\<close> holds; it then writes nothing to
  standard error and writes the output of the three parsed values. In every other case
  it returns exit code 1, writes at least one line to standard error and nothing to
  standard output.
\<close>

lemma turn_main_without_nan:
  assumes "parse_double (args ! 0) \<noteq> Inr NaN" and "parse_double (args ! 1) \<noteq> Inr NaN"
  shows "(turn_exit_code (turn_main parse_double program_name args) = 0 \<longleftrightarrow>
       turn_input_ok parse_double args)
   \<and> (turn_input_ok parse_double args \<longrightarrow>
       (\<exists>tas_kts bank_deg course_change_deg.
          parse_double (args ! 0) = Inr tas_kts \<and> parse_double (args ! 1) = Inr bank_deg
        \<and> parse_double (args ! 2) = Inr course_change_deg
        \<and> turn_main parse_double program_name args =
            \<lparr> turn_exit_code = 0,
              turn_stdout = turn_output tas_kts bank_deg course_change_deg,
              turn_stderr = [] \<rparr>))
   \<and> (\<not> turn_input_ok parse_double args \<longrightarrow>
         turn_exit_code (turn_main parse_double program_name args) = 1
       \<and> turn_stderr (turn_main parse_double program_name args) \<noteq> []
       \<and> turn_stdout (turn_main parse_double program_name args) = Nothing)"
proof (cases "length args = 3")
  case False
  then show ?thesis
    by (simp add: not_three_args turn_main_def turn_print_usage_def)
next
  case True
  then obtain x y z where args: "args = [x, y, z]" using three_args by blast
  show ?thesis
    using assms unfolding args
    by (auto simp: turn_input_ok_def turn_main_def turn_catch_def
        tas_check_without_nan bank_check_without_nan split: sum.splits)
qed

text \<open>
  Bank angles 85 and -85 are accepted; 85.0001, -86, a true airspeed of 0, the argument
  \<^verbatim>\<open>abc\<close> and a missing argument all end with exit code 1.
\<close>

lemma turn_main_examples:
  "turn_main example_stod ''turn_calculator'' [''250'', ''85'', ''90''] =
     \<lparr> turn_exit_code = 0,
       turn_stdout = Json (turn_print_json (calculate_turn_performance 250 85 90)),
       turn_stderr = [] \<rparr>
   \<and> turn_exit_code (turn_main example_stod ''turn_calculator'' [''250'', ''-85'', ''90'']) = 0
   \<and> turn_exit_code (turn_main example_stod ''turn_calculator'' [''250'', ''85.0001'', ''90'']) = 1
   \<and> turn_exit_code (turn_main example_stod ''turn_calculator'' [''250'', ''-86'', ''90'']) = 1
   \<and> turn_exit_code (turn_main example_stod ''turn_calculator'' [''0'', ''85'', ''90'']) = 1
   \<and> turn_exit_code (turn_main example_stod ''turn_calculator'' [''250'', ''abc'', ''90'']) = 1
   \<and> turn_stdout (turn_main example_stod ''turn_calculator'' [''250'', ''abc'', ''90'']) = Nothing
   \<and> turn_exit_code (turn_main example_stod ''turn_calculator'' [''250'', ''85'']) = 1"
  by (simp add: turn_main_def turn_catch_def turn_output_def example_stod_def)

text \<open>
  Claim C5, at an input where the program does not do what the claim says. The claim:
  the turn calculator exits with code 0 exactly when it receives three parsable numeric
  arguments with true airspeed above 0 and bank angle of magnitude at most 85, and exits
  with code 1 when the true airspeed is at most 0 or the bank angle is of magnitude above
  85. \<^verbatim>\<open>std::stod\<close> reads the argument \<^verbatim>\<open>nan\<close> as NaN and does not throw. NaN
  is not above 0, yet \<^verbatim>\<open>tas_kts <= 0\<close> is false on it; NaN is not of magnitude at
  most 85, yet \<^verbatim>\<open>std::abs(bank_deg) > 85\<close> is false on it. On the arguments
  \<^verbatim>\<open>nan 25 90\<close> and on \<^verbatim>\<open>250 nan 90\<close> the program passes both checks, writes the
  eight lines of \<^verbatim>\<open>print_json\<close>, writes nothing to standard error and returns 0,
  although \<open>turn_input_ok\<close> does not hold.
\<close>

theorem C5_nan_passes_validation:
  "turn_main example_stod ''turn_calculator'' [''nan'', ''25'', ''90''] =
     \<lparr> turn_exit_code = 0, turn_stdout = JsonUnmodelled, turn_stderr = [] \<rparr>
   \<and> \<not> turn_input_ok example_stod [''nan'', ''25'', ''90'']
   \<and> turn_main example_stod ''turn_calculator'' [''250'', ''nan'', ''90''] =
     \<lparr> turn_exit_code = 0, turn_stdout = JsonUnmodelled, turn_stderr = [] \<rparr>
   \<and> \<not> turn_input_ok example_stod [''250'', ''nan'', ''90'']"
  by (simp add: turn_main_def turn_output_def turn_input_ok_def example_stod_def)

text \<open>The exit code of the run on \<^verbatim>\<open>nan 25 90\<close>.\<close>

theorem C5_witness:
  "turn_exit_code (turn_main example_stod ''turn_calculator'' [''nan'', ''25'', ''90'']) = 0"
  using C5_nan_passes_validation by simp

section \<open>Properties of the VNAV calculator\<close>

text \<open>
  Claim C3. After validation (distance at least 0, groundspeed above 0),
  \<^verbatim>\<open>calculate_vnav\<close> replaces a distance below 0.01 by 0.01 and a groundspeed below
  1.0 by 1.0, and with these values \<open>d\<close> and \<open>g\<close> returns the flight path angle
  \<open>arctan ((target_alt_ft - current_alt_ft) / (d * 6076.12)) * 180 / pi\<close> and the required
  vertical speed \<open>101.27 * g * tan gamma_rad\<close>. Such values are not rejected: with four
  arguments that parse to a validated input, \<^verbatim>\<open>main\<close> returns exit code 0 and writes
  the result, whether or not the distance and the groundspeed are below their floors.
\<close>

theorem C3_vnav_floors:
  assumes "0 \<le> distance_nm" and "0 < groundspeed_kts"
    and "parse_double arg_a = Inr current_alt_ft" and "parse_double arg_b = Inr target_alt_ft"
    and "parse_double arg_c = Inr distance_nm" and "parse_double arg_d = Inr groundspeed_kts"
  shows "(let d = (if distance_nm < 0.01 then 0.01 else distance_nm);
              g = (if groundspeed_kts < 1.0 then 1.0 else groundspeed_kts);
              gamma_rad = arctan ((target_alt_ft - current_alt_ft) / (d * 6076.12))
          in flight_path_angle_deg
               (calculate_vnav current_alt_ft target_alt_ft distance_nm groundspeed_kts) =
               gamma_rad * 180 / pi
           \<and> required_vs_fpm
               (calculate_vnav current_alt_ft target_alt_ft distance_nm groundspeed_kts) =
               101.27 * g * tan gamma_rad)
       \<and> vnav_main parse_double program_name [arg_a, arg_b, arg_c, arg_d] =
           \<lparr> exit_code = 0,
             stdout = vnav_print_json
               (calculate_vnav current_alt_ft target_alt_ft distance_nm groundspeed_kts)
               (calculate_vnav_helpers groundspeed_kts 0.0 (target_alt_ft - current_alt_ft)),
             stderr = [] \<rparr>"
proof -
  have calc: "(let d = (if distance_nm < 0.01 then 0.01 else distance_nm);
              g = (if groundspeed_kts < 1.0 then 1.0 else groundspeed_kts);
              gamma_rad = arctan ((target_alt_ft - current_alt_ft) / (d * 6076.12))
          in flight_path_angle_deg
               (calculate_vnav current_alt_ft target_alt_ft distance_nm groundspeed_kts) =
               gamma_rad * 180 / pi
           \<and> required_vs_fpm
               (calculate_vnav current_alt_ft target_alt_ft distance_nm groundspeed_kts) =
               101.27 * g * tan gamma_rad)"
    by (simp add: calculate_vnav_def Let_def NM_TO_FT_def RAD_TO_DEG_def)
  have run: "vnav_main parse_double program_name [arg_a, arg_b, arg_c, arg_d] =
           \<lparr> exit_code = 0,
             stdout = vnav_print_json
               (calculate_vnav current_alt_ft target_alt_ft distance_nm groundspeed_kts)
               (calculate_vnav_helpers groundspeed_kts 0.0 (target_alt_ft - current_alt_ft)),
             stderr = [] \<rparr>"
    using assms by (simp add: vnav_main_def Let_def)
  from calc run show ?thesis by (rule conjI)
qed

text \<open>A distance of 0 nm and a groundspeed of 0.5 kt, both below their floors.\<close>

theorem C3_witness:
  "flight_path_angle_deg (calculate_vnav 35000 10000 0 0.5) =
      arctan ((10000 - 35000) / (0.01 * 6076.12)) * 180 / pi
   \<and> required_vs_fpm (calculate_vnav 35000 10000 0 0.5) =
      101.27 * 1.0 * tan (arctan ((10000 - 35000) / (0.01 * 6076.12)))
   \<and> exit_code (vnav_main example_parser ''vnav_calculator'' [''35000'', ''10000'', ''0'', ''0.5'']) = 0"
  using C3_vnav_floors [where distance_nm = 0 and groundspeed_kts = "0.5"
      and parse_double = example_parser and arg_a = "''35000''" and current_alt_ft = 35000
      and arg_b = "''10000''" and target_alt_ft = 10000 and arg_c = "''0''" and arg_d = "''0.5''"
      and program_name = "''vnav_calculator''"]
  by (simp add: example_parser_def Let_def)

text \<open>
  Claim C6. For every valid VNAV input whose altitude change exceeds 10 ft in magnitude,
  \<open>distance_per_1000ft\<close> times the magnitude of the altitude change is the floored
  distance times 1000; when the magnitude is at most 10 ft, \<open>distance_per_1000ft\<close> is the
  sentinel 999.9.
\<close>

theorem C6_distance_per_1000ft:
  assumes "0 \<le> distance_nm" and "0 < groundspeed_kts"
  shows "(if \<bar>target_alt_ft - current_alt_ft\<bar> > 10
          then distance_per_1000ft
                 (calculate_vnav current_alt_ft target_alt_ft distance_nm groundspeed_kts)
                 * \<bar>target_alt_ft - current_alt_ft\<bar> =
               (if distance_nm < 0.01 then 0.01 else distance_nm) * 1000
          else distance_per_1000ft
                 (calculate_vnav current_alt_ft target_alt_ft distance_nm groundspeed_kts) = 999.9)"
  by (simp add: calculate_vnav_def Let_def)

text \<open>
  A descent of 25000 ft over 100 nm, the same descent over a distance of 0 nm, floored
  to 0.01, and a climb of exactly 10 ft.
\<close>

theorem C6_witness:
  "distance_per_1000ft (calculate_vnav 35000 10000 100 450) * \<bar>10000 - 35000\<bar> = 100 * 1000
   \<and> distance_per_1000ft (calculate_vnav 35000 10000 0 450) * \<bar>10000 - 35000\<bar> = 0.01 * 1000
   \<and> distance_per_1000ft (calculate_vnav 10000 10010 100 450) = 999.9"
  using C6_distance_per_1000ft [of 100 450 10000 35000]
    C6_distance_per_1000ft [of 0 450 10000 35000]
    C6_distance_per_1000ft [of 100 450 10010 10000]
  by simp

section \<open>Properties of the wind calculator\<close>

text \<open>
  The two loops of \<^verbatim>\<open>normalize_angle\<close> in closed form: together they subtract the
  whole turns of the angle.
\<close>

lemma floor_turns:
  "\<lfloor>(a + 360 * of_int k) / 360\<rfloor> = \<lfloor>a / (360::real)\<rfloor> + k"
proof -
  have eq: "(a + 360 * of_int k) / 360 = a / 360 + of_int k" by (simp add: field_simps)
  show ?thesis unfolding eq by (rule floor_add_int [symmetric])
qed

lemma normalize_up_closed:
  "normalize_up a = (if a < 0 then a - 360 * of_int \<lfloor>a / 360\<rfloor> else a)"
proof (induction a rule: normalize_up.induct)
  case (1 angle)
  show ?case
  proof (cases "angle < 0")
    case False
    then show ?thesis by (simp add: normalize_up.simps [of angle])
  next
    case True
    have step: "normalize_up angle = normalize_up (angle + 360)"
      using True by (simp add: normalize_up.simps [of angle])
    have fl: "\<lfloor>(angle + 360) / 360\<rfloor> = \<lfloor>angle / 360\<rfloor> + 1"
      using floor_turns [of angle 1] by simp
    show ?thesis
    proof (cases "angle + 360 < 0")
      case True
      with 1 \<open>angle < 0\<close> step fl show ?thesis by (simp add: algebra_simps)
    next
      case False
      then have "- 1 \<le> angle / 360" "angle / 360 < 0" using \<open>angle < 0\<close> by simp_all
      then have "\<lfloor>angle / 360\<rfloor> = - 1" by (simp add: floor_eq_iff)
      with 1 \<open>angle < 0\<close> False step show ?thesis by simp
    qed
  qed
qed

lemma normalize_down_closed:
  "0 \<le> a \<Longrightarrow> normalize_down a = a - 360 * of_int \<lfloor>a / 360\<rfloor>"
proof (induction a rule: normalize_down.induct)
  case (1 angle)
  show ?case
  proof (cases "angle \<ge> 360")
    case False
    with 1(2) have "0 \<le> angle / 360" "angle / 360 < 1" by simp_all
    then have "\<lfloor>angle / 360\<rfloor> = 0" by (simp add: floor_eq_iff)
    with False show ?thesis by (simp add: normalize_down.simps [of angle])
  next
    case True
    have step: "normalize_down angle = normalize_down (angle - 360)"
      using True by (simp add: normalize_down.simps [of angle])
    have fl: "\<lfloor>(angle - 360) / 360\<rfloor> = \<lfloor>angle / 360\<rfloor> - 1"
      using floor_turns [of angle "- 1"] by simp
    from 1(1) True
    have "normalize_down (angle - 360) = angle - 360 - 360 * of_int \<lfloor>(angle - 360) / 360\<rfloor>"
      by simp
    with step fl show ?thesis by (simp add: algebra_simps)
  qed
qed

lemma normalize_angle_closed:
  "normalize_angle a = a - 360 * of_int \<lfloor>a / 360\<rfloor>"
proof (cases "a < 0")
  case True
  let ?r = "a - 360 * of_int \<lfloor>a / 360\<rfloor>"
  have up: "normalize_up a = ?r" using True by (simp add: normalize_up_closed)
  have "of_int \<lfloor>a / 360\<rfloor> \<le> a / 360" "a / 360 < of_int \<lfloor>a / 360\<rfloor> + 1"
    by linarith+
  then have rng: "0 \<le> ?r" "?r < 360" by (simp_all add: field_simps)
  then have "normalize_down ?r = ?r" by (simp add: normalize_down.simps [of ?r])
  with up show ?thesis by (simp add: normalize_angle_def)
next
  case False
  then show ?thesis by (simp add: normalize_angle_def normalize_up_closed normalize_down_closed)
qed

lemma normalize_angle_range: "0 \<le> normalize_angle a \<and> normalize_angle a < 360"
proof -
  have "of_int \<lfloor>a / 360\<rfloor> \<le> a / 360" "a / 360 < of_int \<lfloor>a / 360\<rfloor> + 1"
    by linarith+
  then show ?thesis by (simp add: normalize_angle_closed field_simps)
qed

lemma normalize_angle_shift:
  "normalize_angle (a + 360 * of_int k) = normalize_angle a"
  unfolding normalize_angle_closed floor_turns by (simp add: algebra_simps)

lemma normalize_angle_diff:
  "normalize_angle (normalize_angle a - normalize_angle b) = normalize_angle (a - b)"
proof -
  have "normalize_angle a - normalize_angle b =
      (a - b) + 360 * of_int (\<lfloor>b / 360\<rfloor> - \<lfloor>a / 360\<rfloor>)"
    by (simp add: normalize_angle_closed algebra_simps)
  then show ?thesis by (simp only: normalize_angle_shift)
qed

lemma normalize_angle_small: "0 \<le> a \<Longrightarrow> a < 360 \<Longrightarrow> normalize_angle a = a"
  by (simp add: normalize_angle_def normalize_up.simps [of a] normalize_down.simps [of a])

lemma calculate_wind_closed:
  "calculate_wind track heading wind_dir wind_speed =
    (let drift0 = normalize_angle (track - heading);
         rel0 = normalize_angle (wind_dir - track);
         rel = (if rel0 > 180 then rel0 - 360 else rel0)
     in \<lparr> headwind = - wind_speed * cos (rel * DEG_TO_RAD),
          crosswind = wind_speed * sin (rel * DEG_TO_RAD),
          total_wind = wind_speed,
          wca = 0,
          drift = (if drift0 > 180 then drift0 - 360 else drift0) \<rparr>)"
  by (simp add: calculate_wind_def Let_def normalize_angle_diff)

text \<open>
  In exact arithmetic, adding whole turns \<open>360 * i\<close>, \<open>360 * j\<close>, \<open>360 * k\<close> to track,
  heading and wind direction leaves the record of \<open>calculate_wind\<close> unchanged. This is a
  fact about the formulas: it is what the normalisation of the code is written to
  achieve. It does not say that the program returns on the larger angles.
\<close>

lemma calculate_wind_whole_turns_exact:
  "calculate_wind (track + 360 * of_int i) (heading + 360 * of_int j)
     (wind_dir + 360 * of_int k) wind_speed =
   calculate_wind track heading wind_dir wind_speed"
proof -
  have d: "track + 360 * of_int i - (heading + 360 * of_int j) =
      (track - heading) + 360 * of_int (i - j)"
    by (simp add: algebra_simps)
  have w: "wind_dir + 360 * of_int k - (track + 360 * of_int i) =
      (wind_dir - track) + 360 * of_int (k - i)"
    by (simp add: algebra_simps)
  show ?thesis
    unfolding calculate_wind_closed d w normalize_angle_shift ..
qed

text \<open>
  Two values of \<open>round_double\<close>: one tenth rounds to the \<^verbatim>\<open>double\<close> nearest to
  it, 3602879701896397 / 2^55, and 360 is a \<^verbatim>\<open>double\<close>.
\<close>

lemma round_double_one_tenth:
  "round_double (1 / 10) = 3602879701896397 / 36028797018963968"
proof -
  have e: "\<lfloor>log 2 \<bar>1 / 10 :: real\<bar>\<rfloor> = - 4"
    by (subst floor_log_eq_powr_iff) (simp_all add: powr_minus)
  have u: "double_ulp (1 / 10) = 1 / 72057594037927936"
    unfolding double_ulp_def e by (simp add: powr_minus divide_simps)
  show ?thesis
    unfolding round_double_def u by (simp add: round_even_def Let_def)
qed

lemma round_double_360: "round_double 360 = 360"
proof -
  have e: "\<lfloor>log 2 \<bar>360 :: real\<bar>\<rfloor> = 8"
    by (subst floor_log_eq_powr_iff) simp_all
  have u: "double_ulp 360 = 1 / 17592186044416"
    unfolding double_ulp_def e by (simp add: powr_minus divide_simps)
  show ?thesis
    unfolding round_double_def u by (simp add: round_even_def Let_def)
qed

text \<open>
  The loops with the rounded step. Between 2^62 and 2^63 two neighbouring values of
  \<^verbatim>\<open>double\<close> are 1024 apart.
\<close>

lemma floor_log_2_62:
  assumes "2 ^ 62 \<le> x" and "x < 2 ^ 63"
  shows "\<lfloor>log 2 \<bar>x\<bar>\<rfloor> = 62"
proof -
  have "(2::real) powr of_int 62 \<le> \<bar>x\<bar>" using assms by simp
  moreover have "\<bar>x\<bar> < 2 powr of_int (62 + 1)" using assms by simp
  moreover have "0 < \<bar>x\<bar>" using assms by simp
  ultimately show ?thesis
    by (subst floor_log_eq_powr_iff) simp_all
qed

lemma double_ulp_2_62:
  assumes "2 ^ 62 \<le> x" and "x < 2 ^ 63"
  shows "double_ulp x = 1024"
  unfolding double_ulp_def floor_log_2_62 [OF assms] by simp

text \<open>
  The number 6485183463413514240 is \<open>360 * 2^54\<close>, a multiple of 1024: it is a value of
  \<^verbatim>\<open>double\<close>, and subtracting 360.0 from it gives it back.
\<close>

lemma whole_turns_exact_double: "round_double 6485183463413514240 = 6485183463413514240"
proof -
  have "double_ulp 6485183463413514240 = 1024"
    by (rule double_ulp_2_62) simp_all
  then show ?thesis
    unfolding round_double_def by (simp add: round_even_def Let_def)
qed

lemma whole_turns_absorb_360:
  "round_double (6485183463413514240 - 360.0) = 6485183463413514240"
proof -
  have "double_ulp (6485183463413514240 - 360.0) = 1024"
    by (rule double_ulp_2_62) simp_all
  then show ?thesis
    unfolding round_double_def by (simp add: round_even_def Let_def)
qed

text \<open>
  A round of the second loop that leaves the angle as it is: the loop never returns.
  By induction on the computation of \<open>normalize_down_double\<close>, no run that returns
  passes through such an angle.
\<close>

lemma stalled_loop:
  assumes big: "x \<ge> 360.0" and fixed: "round_double (x - 360.0) = x"
  shows "normalize_down_double x = None"
proof -
  have "a \<noteq> x" if ret: "normalize_down_double a = Some y" for a y
  proof (rule normalize_down_double.raw_induct [where P = "\<lambda>a y. a \<noteq> x", OF _ ret])
    fix loop :: "real \<Rightarrow> real option" and a y :: real
    assume IH: "\<And>a y. loop a = Some y \<Longrightarrow> a \<noteq> x"
      and step: "(if a \<ge> 360.0 then loop (round_double (a - 360.0)) else Some a) = Some y"
    show "a \<noteq> x"
    proof
      assume "a = x"
      with step big fixed have "loop x = Some y" by simp
      with IH show False by blast
    qed
  qed
  then show ?thesis by (cases "normalize_down_double x") auto
qed

lemma normalize_angle_double_whole_turns:
  "normalize_angle_double 6485183463413514240 = None"
proof -
  have up: "normalize_up_double 6485183463413514240 = Some 6485183463413514240"
    by (subst normalize_up_double.simps) simp
  have down: "normalize_down_double 6485183463413514240 = None"
    by (rule stalled_loop) (simp, rule whole_turns_absorb_360)
  show ?thesis by (simp add: normalize_angle_double_def up down)
qed

lemma normalize_angle_double_zero: "normalize_angle_double 0 = Some 0"
proof -
  have up: "normalize_up_double 0 = Some 0"
    by (subst normalize_up_double.simps) simp
  have down: "normalize_down_double 0 = Some 0"
    by (subst normalize_down_double.simps) simp
  show ?thesis by (simp add: normalize_angle_double_def up down)
qed

text \<open>
  Claim C4, at an input where the program does not do what the claim says. The claim:
  replacing track, heading or wind direction by a value congruent to it modulo 360
  leaves every output of \<^verbatim>\<open>calculate_wind\<close> unchanged. The track 6485183463413514240
  is \<open>0 + 360 * 2^54\<close>, congruent to 0 modulo 360, and it is a value of \<^verbatim>\<open>double\<close>.
  With track 0, heading 0 and wind from 0 at 10 kt \<^verbatim>\<open>calculate_wind\<close> returns a
  tailwind of 10 kt. With the track replaced by 6485183463413514240 the second loop of
  \<^verbatim>\<open>normalize_angle\<close> never ends, since \<^verbatim>\<open>angle - 360.0\<close> rounds to
  \<^verbatim>\<open>angle\<close>, and \<^verbatim>\<open>calculate_wind\<close> returns nothing.
\<close>

theorem C4_whole_turns_never_return:
  "(6485183463413514240::real) = 0 + 360 * of_int (2 ^ 54)
   \<and> round_double 6485183463413514240 = 6485183463413514240
   \<and> calculate_wind_double 6485183463413514240 0 0 10 = None
   \<and> calculate_wind_double 0 0 0 10 =
       Some \<lparr> headwind = - 10, crosswind = 0, total_wind = 10, wca = 0, drift = 0 \<rparr>"
proof -
  have r0: "round_double 0 = 0" by (simp add: round_double_def)
  have a: "calculate_wind_double 6485183463413514240 0 0 10 = None"
    by (simp add: calculate_wind_double_def normalize_angle_double_whole_turns)
  have b: "calculate_wind_double 0 0 0 10 =
       Some \<lparr> headwind = - 10, crosswind = 0, total_wind = 10, wca = 0, drift = 0 \<rparr>"
    by (simp add: calculate_wind_double_def normalize_angle_double_zero r0 Let_def)
  have c: "(6485183463413514240::real) = 0 + 360 * of_int (2 ^ 54)" by simp
  from c whole_turns_exact_double a b show ?thesis by (intro conjI)
qed

text \<open>The two congruent inputs do not give the same result.\<close>

theorem C4_witness:
  "calculate_wind_double 6485183463413514240 0 0 10 \<noteq> calculate_wind_double 0 0 0 10"
  using C4_whole_turns_never_return by simp





text \<open>
  The example of the specification: track 90, heading 85, wind from 270 at 15 kt is a
  headwind of 15 kt with no crosswind and a drift of 5 degrees.
\<close>

lemma spec_example_wind:
  "calculate_wind 90 85 270 15 =
     \<lparr> headwind = 15, crosswind = 0, total_wind = 15, wca = 0, drift = 5 \<rparr>"
proof -
  have a: "normalize_angle (90 - 85) = 5" using normalize_angle_small [of 5] by simp
  have b: "normalize_angle (270 - 90) = 180" using normalize_angle_small [of 180] by simp
  have c: "(180::real) * DEG_TO_RAD = pi" by (simp add: DEG_TO_RAD_def)
  show ?thesis unfolding calculate_wind_closed Let_def a b by (simp add: c)
qed

section \<open>Properties of the JSON output\<close>

text \<open>
  Claim C7, as stated: the keys written are the field names of the result records, for
  VNAV the eight of \<^verbatim>\<open>VNAVData\<close> followed by the three of \<^verbatim>\<open>VNAVHelpers\<close>. The
  last key written by the VNAV calculator is \<^verbatim>\<open>distance_at_current_vs_nm\<close>; the field
  it prints is named \<^verbatim>\<open>distance_remaining_at_current_vs\<close>.
\<close>

theorem C7_counterexample:
  "keys (vnav_print_json (calculate_vnav 35000 10000 100 450)
       (calculate_vnav_helpers 450 0 (10000 - 35000)))
   \<noteq> VNAVData_fields @ VNAVHelpers_fields"
  by (simp add: keys_def vnav_print_json_def VNAVData_fields_def VNAVHelpers_fields_def)

lemma snake_turn: "list_all snake_case TurnData_fields"
  by (simp add: TurnData_fields_def snake_case_def snake_char_def)

lemma snake_wind: "list_all snake_case WindComponents_fields"
  by (simp add: WindComponents_fields_def snake_case_def snake_char_def)

lemma snake_vnav:
  "list_all snake_case
     (VNAVData_fields @ [''vs_for_3deg'', ''vs_for_5deg'', ''distance_at_current_vs_nm''])"
  by (simp add: VNAVData_fields_def snake_case_def snake_char_def)

text \<open>
  Claim C7, amended. The keys of the turn output are the field names of \<^verbatim>\<open>TurnData\<close>
  and the keys of the wind output are the field names of \<^verbatim>\<open>WindComponents\<close>, in the
  order of declaration. The keys of the VNAV output are the eight field names of
  \<^verbatim>\<open>VNAVData\<close>, then the first two field names of \<^verbatim>\<open>VNAVHelpers\<close>, then the key
  \<^verbatim>\<open>distance_at_current_vs_nm\<close>, under which the field
  \<^verbatim>\<open>distance_remaining_at_current_vs\<close> is written. Every key is a lowercase
  snake-case name.
\<close>

theorem C7_json_keys:
  "keys (turn_print_json turn) = TurnData_fields
   \<and> keys (wind_print_json wind) = WindComponents_fields
   \<and> keys (vnav_print_json vnav helpers) =
       VNAVData_fields @ butlast VNAVHelpers_fields @ [''distance_at_current_vs_nm'']
   \<and> vnav_print_json vnav helpers ! 10 =
       (''distance_at_current_vs_nm'', JNumber (distance_remaining_at_current_vs helpers))
   \<and> list_all snake_case (keys (turn_print_json turn))
   \<and> list_all snake_case (keys (wind_print_json wind))
   \<and> list_all snake_case (keys (vnav_print_json vnav helpers))"
proof -
  have t: "keys (turn_print_json turn) = TurnData_fields"
    by (simp add: keys_def turn_print_json_def TurnData_fields_def)
  have w: "keys (wind_print_json wind) = WindComponents_fields"
    by (simp add: keys_def wind_print_json_def WindComponents_fields_def)
  have v: "keys (vnav_print_json vnav helpers) =
       VNAVData_fields @ butlast VNAVHelpers_fields @ [''distance_at_current_vs_nm'']"
    by (simp add: keys_def vnav_print_json_def VNAVData_fields_def VNAVHelpers_fields_def)
  have v': "keys (vnav_print_json vnav helpers) =
       VNAVData_fields @ [''vs_for_3deg'', ''vs_for_5deg'', ''distance_at_current_vs_nm'']"
    by (simp add: keys_def vnav_print_json_def VNAVData_fields_def)
  have last: "vnav_print_json vnav helpers ! 10 =
       (''distance_at_current_vs_nm'', JNumber (distance_remaining_at_current_vs helpers))"
    by (simp add: vnav_print_json_def)
  show ?thesis
    using t w v last snake_turn snake_wind snake_vnav by (simp add: v')
qed

text \<open>The three outputs of the examples of the specification.\<close>

theorem C7_witness:
  "keys (turn_print_json (calculate_turn_performance 250 25 90)) = TurnData_fields
   \<and> keys (wind_print_json (calculate_wind 90 85 270 15)) = WindComponents_fields
   \<and> keys (vnav_print_json (calculate_vnav 35000 10000 100 450)
        (calculate_vnav_helpers 450 0 (10000 - 35000))) =
       VNAVData_fields @ butlast VNAVHelpers_fields @ [''distance_at_current_vs_nm'']
   \<and> list_all snake_case (keys (vnav_print_json (calculate_vnav 35000 10000 100 450)
        (calculate_vnav_helpers 450 0 (10000 - 35000))))"
  using C7_json_keys [of "calculate_turn_performance 250 25 90" "calculate_wind 90 85 270 15"
      "calculate_vnav 35000 10000 100 450" "calculate_vnav_helpers 450 0 (10000 - 35000)"]
  by blast

end
